theory Spec2Isabelle
  imports Main
begin

section \<open>Data model\<close>

text \<open>
  The program is \<^verbatim>\<open>index.js\<close>: an Express application with a Telegraf bot. Its
  persistent data live in two places: the Mongoose collection \<^verbatim>\<open>User\<close> (the
  Durable Store) and the JSON file \<^verbatim>\<open>data.json\<close> (the Snapshot Store).

  A timestamp (\<^verbatim>\<open>Date.now()\<close>, \<^verbatim>\<open>new Date()\<close>, an ISO string written by
  \<^verbatim>\<open>toISOString()\<close> and read back by \<^verbatim>\<open>new Date(s).getTime()\<close>) is the number of
  milliseconds since the epoch, an \<open>int\<close>. A handler's clock reads return the request's
  \<open>now\<close>; the listing of repositories, which stamps its cache entry after waiting for the
  provider, reads a second time, \<open>resumed\<close>, for the stamps it writes then.
\<close>

text \<open>One element of \<^verbatim>\<open>userSchema.repositories\<close>: name, full_name, url, private.\<close>

record repo_ref =
  repo_name :: string
  repo_full_name :: string
  repo_url :: string
  repo_private :: bool

text \<open>
  One repository object of the hosting provider's payload. The program reads the fields
  name, full_name, html_url and private; the payload's other fields are carried along
  unread and are not modelled.
\<close>

record gh_repo =
  gh_name :: string
  gh_full_name :: string
  gh_html_url :: string
  gh_private :: bool

text \<open>
  A document of \<^verbatim>\<open>userSchema\<close>. A field without a default may be missing
  (\<open>None\<close>). Mongoose's \<^verbatim>\<open>_id\<close> and \<^verbatim>\<open>__v\<close> are not modelled.
\<close>

record user =
  telegramId :: string
  githubId :: "string option"
  githubAccessToken :: "string option"
  githubUsername :: "string option"
  isAgreed :: bool
  isConnected :: bool
  createdAt :: int
  lastActive :: int
  repositories :: "repo_ref list"

text \<open>
  The values the program stores in the snapshot file, one constructor for each shape it
  writes: a serialised user document (\<^verbatim>\<open>user_<id>\<close>), a repository list with its
  \<^verbatim>\<open>cachedAt\<close> (\<^verbatim>\<open>repos_<id>\<close>), the marker \<^verbatim>\<open>{telegramId, timestamp}\<close>
  (\<^verbatim>\<open>oauth_<id>\<close>) and the ISO string under \<^verbatim>\<open>lastUpdated\<close>. A value read back
  from the file is a plain JSON value: it has the document's fields and none of its
  methods. Each of the four shapes is truthy in JavaScript.
\<close>

datatype cache_value =
    UserDoc user
  | ReposEntry "gh_repo list" int
  | OauthMarker string int
  | Stamp int

text \<open>The own properties of the object that \<^verbatim>\<open>readCache\<close> returns.\<close>

type_synonym cache = "string \<rightharpoonup> cache_value"

text \<open>
  The file \<^verbatim>\<open>data.json\<close> as \<^verbatim>\<open>readCache\<close> sees it: it does not exist; reading or
  parsing it throws (\<open>Corrupt\<close>: invalid JSON, or a read error); or it parses to an
  object. A file whose text is valid JSON but not an object (\<^verbatim>\<open>null\<close>, a number, an
  array), which the program never writes, is outside this model.
\<close>

datatype snapshot_file = Absent | Corrupt | Parsed cache

record state =
  db :: "string \<rightharpoonup> user"
  snapshot :: snapshot_file

section \<open>Snapshot Store\<close>

text \<open>
  \<^verbatim>\<open>readCache\<close>: the parsed object if the file exists and parses; the catch block and
  the final \<^verbatim>\<open>return {}\<close> give the empty object otherwise.
\<close>

fun readCache :: "snapshot_file \<Rightarrow> cache" where
  "readCache Absent = Map.empty"
| "readCache Corrupt = Map.empty"
| "readCache (Parsed c) = c"

text \<open>
  \<^verbatim>\<open>cache[key] = value\<close> on the object from \<^verbatim>\<open>readCache\<close>. Every property name
  becomes an own property, except \<^verbatim>\<open>__proto__\<close> when the object does not own it:
  that assignment goes to the prototype setter and adds no own property.
\<close>

definition assign :: "cache \<Rightarrow> string \<Rightarrow> cache_value \<Rightarrow> cache" where
  "assign c key v = (if key = ''__proto__'' \<and> c key = None then c else c(key \<mapsto> v))"

text \<open>
  What \<^verbatim>\<open>fs.writeFileSync\<close> does: it writes the whole text; or the file system
  refuses it and it throws with the file as it was; or it throws after it has opened the
  file, which empties it, and a part of the text at most is on disk: a proper beginning of
  the text of an object does not parse.
\<close>

datatype write_outcome = Written | Refused | Torn

text \<open>
  The body of the \<^verbatim>\<open>try\<close> block of \<^verbatim>\<open>writeCache\<close>: \<open>Inr\<close> of the file when it
  runs to its end, \<open>Inl\<close> of the error thrown and of the file left behind otherwise. The
  file written is the serialisation of the object, so reading it back gives the object.
\<close>

definition writeCache_try ::
  "write_outcome \<Rightarrow> snapshot_file \<Rightarrow> string \<Rightarrow> cache_value \<Rightarrow> int
     \<Rightarrow> (string \<times> snapshot_file) + snapshot_file" where
  "writeCache_try outcome f key v ts =
     (let cache = readCache f;
          cache = assign cache key v;
          cache = cache(''lastUpdated'' \<mapsto> Stamp ts)
      in case outcome of
           Written \<Rightarrow> Inr (Parsed cache)
         | Refused \<Rightarrow> Inl (''writeFileSync failed'', f)
         | Torn \<Rightarrow> Inl (''writeFileSync failed'', Corrupt))"

text \<open>
  \<^verbatim>\<open>writeCache\<close>: the catch block logs the error and returns; nothing is thrown to
  the caller, which gets the file as its only result.
\<close>

definition writeCache ::
  "write_outcome \<Rightarrow> snapshot_file \<Rightarrow> string \<Rightarrow> cache_value \<Rightarrow> int \<Rightarrow> snapshot_file" where
  "writeCache outcome f key v ts =
     (case writeCache_try outcome f key v ts of Inr f' \<Rightarrow> f' | Inl (err, f') \<Rightarrow> f')"

text \<open>
  \<^verbatim>\<open>getFromCache\<close>: \<^verbatim>\<open>cache[key]\<close>, with \<open>None\<close> for \<^verbatim>\<open>undefined\<close>. The lookup
  is among the own properties, which is what JavaScript does for every key that is not a
  property name of \<^verbatim>\<open>Object.prototype\<close>; the program reads keys that start with
  \<^verbatim>\<open>user_\<close> or \<^verbatim>\<open>repos_\<close> only.
\<close>

definition getFromCache :: "snapshot_file \<Rightarrow> string \<Rightarrow> cache_value option" where
  "getFromCache f key = readCache f key"

text \<open>
  The three forms of key the program builds from a chat identity (\<^verbatim>\<open>telegramId\<close> in
  the source, \<open>tid\<close> here).
\<close>

definition user_key :: "string \<Rightarrow> string" where
  "user_key tid = ''user_'' @ tid"

definition repos_key :: "string \<Rightarrow> string" where
  "repos_key tid = ''repos_'' @ tid"

definition oauth_key :: "string \<Rightarrow> string" where
  "oauth_key tid = ''oauth_'' @ tid"

text \<open>
  \<^verbatim>\<open>writeCache\<close> and \<^verbatim>\<open>getFromCache\<close> are local to the module, and each of their
  calls (lines 111, 131, 144, 149, 168, 229, 269, 299, 304, 321) passes a key of one of
  these forms: the keys the program can pass.
\<close>

definition program_key :: "string \<Rightarrow> bool" where
  "program_key key \<longleftrightarrow>
     take 5 key = ''user_'' \<or> take 6 key = ''repos_'' \<or> take 6 key = ''oauth_''"

section \<open>The environment of a request\<close>

text \<open>
  The values of \<^verbatim>\<open>process.env\<close> that the modelled handlers read.
\<close>

record config =
  github_client_id :: string
  frontend_url :: string

text \<open>The fields of the provider's profile that the callback reads.\<close>

record profile =
  profile_id :: string
  login :: string

text \<open>
  A request to an external service: the token exchange (with the code), the profile
  fetch, the repository list and the repository creation (each with the bearer token),
  and the bot's notification to a chat.
\<close>

datatype ext_call =
    Token_exchange string
  | Get_profile string
  | Get_repos string
  | Post_repo string string string bool
  | Send_message string

text \<open>
  What the outside world answers during one request. An \<^verbatim>\<open>axios\<close> call that throws
  (network failure, status outside 2xx) is \<open>Inl\<close> of the error message; otherwise
  \<open>Inr\<close> of the part of \<^verbatim>\<open>response.data\<close> that the handler reads. \<open>disk_ok n\<close> says
  whether the \<open>n\<close>-th \<^verbatim>\<open>fs.writeFileSync\<close> of the request succeeds; in the routes
  a failing write is a refused one. \<open>now\<close> is the clock when the handler runs, and
  \<open>resumed\<close> is the clock when the listing of repositories runs again after it has
  waited for the provider and for its save.

  The Durable Store is a map from \<^verbatim>\<open>telegramId\<close> to the document; its queries and
  saves are taken to complete (a lost database connection is not modelled). The bot's
  own replies to a chat command are taken to be delivered.
\<close>

record env =
  now :: int
  resumed :: int
  disk_ok :: "nat \<Rightarrow> bool"
  token_response :: "string + string option"
  profile_response :: "string + profile"
  repos_response :: "string + gh_repo list"
  create_response :: "string + gh_repo"

text \<open>The HTTP answers of the modelled routes.\<close>

datatype reply =
    Json_value cache_value
  | Json_empty
  | Json_repos "gh_repo list"
  | Json_agreed
  | Status_401
  | Status_500 string
  | Redirect string
  | Redirect_error string

text \<open>
  \<open>Json_value v\<close> is \<^verbatim>\<open>res.json(user)\<close>, \<open>Json_empty\<close> is \<^verbatim>\<open>res.json({})\<close>,
  \<open>Json_agreed\<close> is \<^verbatim>\<open>{success: true, message: 'Agreement accepted'}\<close>,
  \<open>Status_401\<close> is \<^verbatim>\<open>{error: 'Not authenticated'}\<close> (the spec's Unauthenticated),
  \<open>Status_500 m\<close> is the answer of a route's catch block, and \<open>Redirect_error m\<close> is the
  redirect to \<^verbatim>\<open>'/error?error=' + encodeURIComponent(m)\<close>.
\<close>

text \<open>
  JavaScript's \<^verbatim>\<open>!x\<close> on an optional string: a missing value and the empty string
  are falsy. \<open>present x\<close> is the string when it is truthy.
\<close>

definition disk_outcome :: "bool \<Rightarrow> write_outcome" where
  "disk_outcome ok = (if ok then Written else Refused)"

fun present :: "string option \<Rightarrow> string option" where
  "present None = None"
| "present (Some x) = (if x = [] then None else Some x)"

section \<open>The routes\<close>

subsection \<open>\<^verbatim>\<open>POST /api/user/agree\<close> (terms agreement)\<close>

text \<open>\<^verbatim>\<open>new User({telegramId, isAgreed: true, lastActive: new Date()})\<close> with the schema's defaults.\<close>

definition new_User :: "string \<Rightarrow> int \<Rightarrow> user" where
  "new_User tid t =
     \<lparr>telegramId = tid, githubId = None, githubAccessToken = None, githubUsername = None,
      isAgreed = True, isConnected = False, createdAt = t, lastActive = t, repositories = []\<rparr>"

text \<open>
  The handler looks in the snapshot first. A value found there is a plain object, so after
  the two field assignments \<^verbatim>\<open>user.save()\<close> throws the TypeError ``user.save is not
  a function'', which the catch block answers with status 500; nothing has been stored
  by then. Otherwise the document comes from \<^verbatim>\<open>User.findOne\<close>: an existing one is
  changed and saved, a missing one is created. Saving a new document validates
  \<^verbatim>\<open>telegramId\<close>, which is \<^verbatim>\<open>required\<close>: Mongoose rejects the empty string.
\<close>

definition api_user_agree :: "env \<Rightarrow> state \<Rightarrow> string \<Rightarrow> state \<times> reply" where
  "api_user_agree e s tid =
     (case getFromCache (snapshot s) (user_key tid) of
        Some cached \<Rightarrow> (s, Status_500 ''user.save is not a function'')
      | None \<Rightarrow>
          (case db s tid of
             Some u \<Rightarrow>
               (let u' = u\<lparr>isAgreed := True, lastActive := now e\<rparr>;
                    f' = writeCache (disk_outcome (disk_ok e 0)) (snapshot s) (user_key tid) (UserDoc u') (now e)
                in (\<lparr>db = (db s)(tid \<mapsto> u'), snapshot = f'\<rparr>, Json_agreed))
           | None \<Rightarrow>
               (if tid = [] then (s, Status_500 ''User validation failed'')
                else
                  (let u' = new_User tid (now e);
                       f' = writeCache (disk_outcome (disk_ok e 0)) (snapshot s) (user_key tid) (UserDoc u') (now e)
                   in (\<lparr>db = (db s)(tid \<mapsto> u'), snapshot = f'\<rparr>, Json_agreed)))))"

subsection \<open>\<^verbatim>\<open>GET /api/user/:telegramId\<close> (getUser)\<close>

definition api_user :: "env \<Rightarrow> state \<Rightarrow> string \<Rightarrow> state \<times> reply" where
  "api_user e s tid =
     (case getFromCache (snapshot s) (user_key tid) of
        Some cached \<Rightarrow> (s, Json_value cached)
      | None \<Rightarrow>
          (case db s tid of
             Some u \<Rightarrow>
               (s\<lparr>snapshot := writeCache (disk_outcome (disk_ok e 0)) (snapshot s) (user_key tid) (UserDoc u) (now e)\<rparr>,
                Json_value (UserDoc u))
           | None \<Rightarrow> (s, Json_empty)))"

subsection \<open>\<^verbatim>\<open>GET /auth/github\<close> (beginAuthorization)\<close>

definition githubAuthUrl :: "config \<Rightarrow> string \<Rightarrow> string" where
  "githubAuthUrl cfg tid =
     ''https://github.com/login/oauth/authorize?client_id='' @ github_client_id cfg @
     ''&scope=user repo delete_repo&redirect_uri='' @ frontend_url cfg @
     ''/auth/github/callback&state='' @ tid"

definition auth_github :: "config \<Rightarrow> env \<Rightarrow> state \<Rightarrow> string option \<Rightarrow> state \<times> reply" where
  "auth_github cfg e s query_telegramId =
     (case present query_telegramId of
        None \<Rightarrow> (s, Redirect ''/error?error=No Telegram ID'')
      | Some tid \<Rightarrow>
          (s\<lparr>snapshot := writeCache (disk_outcome (disk_ok e 0)) (snapshot s) (oauth_key tid)
                           (OauthMarker tid (now e)) (now e)\<rparr>,
           Redirect (githubAuthUrl cfg tid)))"

subsection \<open>\<^verbatim>\<open>GET /auth/github/callback\<close> (completeAuthorization)\<close>

text \<open>
  \<^verbatim>\<open>User.findOneAndUpdate({telegramId}, {...}, {upsert: true, new: true})\<close>: the
  updated document, or a new one with the update's fields and the schema's defaults (a
  Mongoose version that leaves the defaults out on insert gives a document without
  \<^verbatim>\<open>isAgreed\<close>, which the program reads as false all the same).
\<close>

definition findOneAndUpdate :: "user option \<Rightarrow> string \<Rightarrow> profile \<Rightarrow> string \<Rightarrow> int \<Rightarrow> user" where
  "findOneAndUpdate found tid p access_token t =
     (case found of
        Some u \<Rightarrow>
          u\<lparr>githubId := Some (profile_id p), githubAccessToken := Some access_token,
            githubUsername := Some (login p), isConnected := True, lastActive := t\<rparr>
      | None \<Rightarrow>
          \<lparr>telegramId = tid, githubId = Some (profile_id p),
           githubAccessToken = Some access_token, githubUsername = Some (login p),
           isAgreed = False, isConnected = True, createdAt = t, lastActive = t,
           repositories = []\<rparr>)"

text \<open>
  The third component is the list of external requests the handler made, in order. The
  notification is sent inside its own \<^verbatim>\<open>try\<close> block, whose catch block only logs:
  the handler goes on in the same way whether or not the message is delivered.
\<close>

definition auth_github_callback ::
  "env \<Rightarrow> state \<Rightarrow> string option \<Rightarrow> string option \<Rightarrow> state \<times> reply \<times> ext_call list" where
  "auth_github_callback e s query_code query_state =
     (case (present query_code, present query_state) of
        (Some code, Some tid) \<Rightarrow>
          (case token_response e of
             Inl msg \<Rightarrow> (s, Redirect_error msg, [Token_exchange code])
           | Inr data_access_token \<Rightarrow>
               (case present data_access_token of
                  None \<Rightarrow> (s, Redirect ''/error?error=No access token'', [Token_exchange code])
                | Some access_token \<Rightarrow>
                    (case profile_response e of
                       Inl msg \<Rightarrow>
                         (s, Redirect_error msg, [Token_exchange code, Get_profile access_token])
                     | Inr githubUser \<Rightarrow>
                         (let u = findOneAndUpdate (db s tid) tid githubUser access_token (now e);
                              f' = writeCache (disk_outcome (disk_ok e 0)) (snapshot s) (user_key tid) (UserDoc u) (now e)
                          in (\<lparr>db = (db s)(tid \<mapsto> u), snapshot = f'\<rparr>,
                              Redirect (''/success?telegramId='' @ tid),
                              [Token_exchange code, Get_profile access_token, Send_message tid])))))
      | _ \<Rightarrow> (s, Redirect ''/error?error=Missing parameters'', []))"

subsection \<open>\<^verbatim>\<open>POST /api/github/repos\<close> (listRepositories)\<close>

text \<open>
  The freshness test \<^verbatim>\<open>cachedRepos && Date.now() - new Date(cachedRepos.cachedAt).getTime()
  < 5 * 60 * 1000\<close>, giving \<^verbatim>\<open>cachedRepos.data\<close> when it holds. A cached value of
  another shape has no \<^verbatim>\<open>cachedAt\<close>: the date is invalid, the difference is NaN and the
  comparison is false.
\<close>

fun fresh_data :: "cache_value option \<Rightarrow> int \<Rightarrow> gh_repo list option" where
  "fresh_data (Some (ReposEntry data cachedAt)) t =
     (if t - cachedAt < 5 * 60 * 1000 then Some data else None)"
| "fresh_data _ t = None"

text \<open>The function mapped over the payload to fill \<^verbatim>\<open>user.repositories\<close>.\<close>

definition to_repo_ref :: "gh_repo \<Rightarrow> repo_ref" where
  "to_repo_ref repo =
     \<lparr>repo_name = gh_name repo, repo_full_name = gh_full_name repo,
      repo_url = gh_html_url repo, repo_private = gh_private repo\<rparr>"

text \<open>
  The handler runs in two parts. The first (lines 260-273) runs when \<^verbatim>\<open>User.findOne\<close>
  has answered: the 401 guard, the snapshot lookup and the freshness test, made at the
  time \<open>now\<close>. It answers at once, or it finds nothing fresh: then it sends the request
  to the provider with the user's token and waits, and the stores are as they were.
\<close>

datatype listing = Answer reply | Fetch user string

definition repos_check :: "env \<Rightarrow> state \<Rightarrow> string \<Rightarrow> listing" where
  "repos_check e s tid =
     (case db s tid of
        None \<Rightarrow> Answer Status_401
      | Some u \<Rightarrow>
          (case present (githubAccessToken u) of
             None \<Rightarrow> Answer Status_401
           | Some access_token \<Rightarrow>
               (case fresh_data (getFromCache (snapshot s) (repos_key tid)) (now e) of
                  Some data \<Rightarrow> Answer (Json_repos data)
                | None \<Rightarrow> Fetch u access_token)))"

text \<open>
  The second part (lines 287-306, or the catch block) runs after the handler has awaited
  the fetch (line 276) and \<^verbatim>\<open>user.save()\<close> (line 296), at the time \<open>resumed\<close>: that
  clock stamps \<^verbatim>\<open>cachedAt\<close> (line 301) and \<^verbatim>\<open>lastUpdated\<close>. Other requests can be
  handled while it waits. \<open>api_github_repos\<close> is the handler for a call during whose
  waits no other request is handled: its second part finds the stores as the first left
  them. Two calls of which the second starts while the first waits are two runs of
  \<open>repos_check\<close> on the same stores.
\<close>

definition api_github_repos :: "env \<Rightarrow> state \<Rightarrow> string \<Rightarrow> state \<times> reply \<times> ext_call list" where
  "api_github_repos e s tid =
     (case repos_check e s tid of
        Answer r \<Rightarrow> (s, r, [])
      | Fetch u access_token \<Rightarrow>
          (case repos_response e of
             Inl msg \<Rightarrow> (s, Status_500 msg, [Get_repos access_token])
           | Inr repos \<Rightarrow>
               (let u' = u\<lparr>repositories := map to_repo_ref repos\<rparr>;
                    f1 = writeCache (disk_outcome (disk_ok e 0)) (snapshot s) (repos_key tid)
                           (ReposEntry repos (resumed e)) (resumed e);
                    f2 = writeCache (disk_outcome (disk_ok e 1)) f1 (user_key tid) (UserDoc u')
                           (resumed e)
                in (\<lparr>db = (db s)(tid \<mapsto> u'), snapshot = f2\<rparr>,
                    Json_repos repos, [Get_repos access_token]))))"

subsection \<open>The bot command \<^verbatim>\<open>/newrepo\<close> (createRepository)\<close>

text \<open>The bot's final reply to the command.\<close>

datatype bot_reply =
    Usage
  | Connect_first
  | Repository_created gh_repo
  | Error_creating string

text \<open>\<^verbatim>\<open>words.join(' ')\<close>.\<close>

fun join_space :: "string list \<Rightarrow> string" where
  "join_space [] = []"
| "join_space [w] = w"
| "join_space (w # ws) = w @ '' '' @ join_space ws"

text \<open>
  \<open>args\<close> is \<^verbatim>\<open>ctx.message.text.split(' ').slice(1)\<close>, the words after the command.
  \<^verbatim>\<open>args.slice(1, n)\<close> is \<open>drop 1 (take n args)\<close>. The handler reads the user and
  sends one request to the provider; it stores nothing.
\<close>

definition newrepo :: "env \<Rightarrow> state \<Rightarrow> string \<Rightarrow> string list \<Rightarrow> state \<times> bot_reply \<times> ext_call list" where
  "newrepo e s tid args =
     (case args of
        [] \<Rightarrow> (s, Usage, [])
      | name # rest \<Rightarrow>
          (let isPrivate = (last args = ''private'');
               description = join_space (drop 1 (take (length args - (if isPrivate then 1 else 0)) args))
           in case db s tid of
                None \<Rightarrow> (s, Connect_first, [])
              | Some u \<Rightarrow>
                  (case present (githubAccessToken u) of
                     None \<Rightarrow> (s, Connect_first, [])
                   | Some access_token \<Rightarrow>
                       (case create_response e of
                          Inl msg \<Rightarrow>
                            (s, Error_creating msg, [Post_repo access_token name description isPrivate])
                        | Inr repo \<Rightarrow>
                            (s, Repository_created repo,
                             [Post_repo access_token name description isPrivate])))))"

section \<open>Sequences of requests\<close>

datatype request =
    Agree string
  | GetUser string
  | BeginAuthorization "string option"
  | CompleteAuthorization "string option" "string option"
  | ListRepositories string
  | CreateRepository string "string list"

fun step :: "config \<Rightarrow> env \<Rightarrow> request \<Rightarrow> state \<Rightarrow> state" where
  "step cfg e (Agree tid) s = fst (api_user_agree e s tid)"
| "step cfg e (GetUser tid) s = fst (api_user e s tid)"
| "step cfg e (BeginAuthorization q) s = fst (auth_github cfg e s q)"
| "step cfg e (CompleteAuthorization c q) s = fst (auth_github_callback e s c q)"
| "step cfg e (ListRepositories tid) s = fst (api_github_repos e s tid)"
| "step cfg e (CreateRepository tid args) s = fst (newrepo e s tid args)"

text \<open>
  The states the program can reach from an empty Durable Store, whatever the snapshot file
  holds at the start, by any sequence of requests in any environments.
\<close>

inductive reachable :: "config \<Rightarrow> state \<Rightarrow> bool" for cfg :: config where
  start: "db s = Map.empty \<Longrightarrow> reachable cfg s"
| request: "reachable cfg s \<Longrightarrow> reachable cfg (step cfg e r s)"

text \<open>The invariant of a user document: connected exactly when it holds a non-empty token.\<close>

definition linked_iff_token :: "user \<Rightarrow> bool" where
  "linked_iff_token u \<longleftrightarrow> (isConnected u \<longleftrightarrow> present (githubAccessToken u) \<noteq> None)"

definition db_invariant :: "state \<Rightarrow> bool" where
  "db_invariant s \<longleftrightarrow> (\<forall>tid u. db s tid = Some u \<longrightarrow> linked_iff_token u)"

section \<open>Concrete inputs\<close>

text \<open>
  The inputs at which the theorems below are instantiated: a configuration, a provider
  profile and two repositories; an environment at time \<open>t\<close> in which every external
  request and every file write succeeds and the provider answers at once, one in which
  the file writes fail, one in which the provider takes 400 milliseconds to answer, and
  one in which the provider's requests fail; the stores of a fresh deployment; the stores after
  chat 42 has agreed to the terms there at time 1000; the stores after chat 42 has instead
  completed the authorization there at time 1000, and the record it then has; and the
  stores after chat 42 has then listed its repositories at time 2000, with the provider
  answering at once or slowly.
\<close>

definition example_config :: config where
  "example_config =
     \<lparr>github_client_id = ''Iv1.8a61f9b3a7aba766'', frontend_url = ''https://bot.example''\<rparr>"

definition octocat :: profile where
  "octocat = \<lparr>profile_id = ''583231'', login = ''octocat''\<rparr>"

definition hello_world :: gh_repo where
  "hello_world =
     \<lparr>gh_name = ''Hello-World'', gh_full_name = ''octocat/Hello-World'',
      gh_html_url = ''https://github.com/octocat/Hello-World'', gh_private = False\<rparr>"

definition foo_repo :: gh_repo where
  "foo_repo =
     \<lparr>gh_name = ''foo'', gh_full_name = ''octocat/foo'',
      gh_html_url = ''https://github.com/octocat/foo'', gh_private = False\<rparr>"

definition calm :: "int \<Rightarrow> env" where
  "calm t =
     \<lparr>now = t, resumed = t, disk_ok = (\<lambda>n. True), token_response = Inr (Some ''gho_16C7e42F''),
      profile_response = Inr octocat, repos_response = Inr [hello_world],
      create_response = Inr foo_repo\<rparr>"

definition disk_failing :: "int \<Rightarrow> env" where
  "disk_failing t = (calm t)\<lparr>disk_ok := (\<lambda>n. False)\<rparr>"

definition slow_fetch :: "int \<Rightarrow> env" where
  "slow_fetch t = (calm t)\<lparr>resumed := t + 400\<rparr>"


definition fresh_deploy :: state where
  "fresh_deploy = \<lparr>db = Map.empty, snapshot = Absent\<rparr>"

definition agreed_42 :: state where
  "agreed_42 = fst (api_user_agree (calm 1000) fresh_deploy ''42'')"

definition linked_42 :: state where
  "linked_42 = fst (auth_github_callback (calm 1000) fresh_deploy (Some ''c0de'') (Some ''42''))"

definition user_42 :: user where
  "user_42 = findOneAndUpdate None ''42'' octocat ''gho_16C7e42F'' 1000"

definition listed_42 :: state where
  "listed_42 = fst (api_github_repos (calm 2000) linked_42 ''42'')"

definition listed_slowly_42 :: state where
  "listed_slowly_42 = fst (api_github_repos (slow_fetch 2000) linked_42 ''42'')"

section \<open>Lemmas on the Snapshot Store\<close>

lemma user_key_inj: "user_key x = user_key y \<longleftrightarrow> x = y"
  by (simp add: user_key_def)

lemma repos_key_inj: "repos_key x = repos_key y \<longleftrightarrow> x = y"
  by (simp add: repos_key_def)

lemma oauth_key_inj: "oauth_key x = oauth_key y \<longleftrightarrow> x = y"
  by (simp add: oauth_key_def)

lemma keys_distinct:
  "user_key x \<noteq> repos_key y" "repos_key y \<noteq> user_key x"
  "user_key x \<noteq> oauth_key y" "oauth_key y \<noteq> user_key x"
  "repos_key x \<noteq> oauth_key y" "oauth_key y \<noteq> repos_key x"
  "user_key x \<noteq> ''lastUpdated''" "repos_key x \<noteq> ''lastUpdated''" "oauth_key x \<noteq> ''lastUpdated''"
  "user_key x \<noteq> ''__proto__''" "repos_key x \<noteq> ''__proto__''" "oauth_key x \<noteq> ''__proto__''"
  by (simp_all add: user_key_def repos_key_def oauth_key_def)

lemma getFromCache_unreadable:
  "getFromCache Absent key = None" "getFromCache Corrupt key = None"
  by (simp_all add: getFromCache_def)

lemma program_keys:
  "program_key (user_key tid)" "program_key (repos_key tid)" "program_key (oauth_key tid)"
  by (simp_all add: program_key_def user_key_def repos_key_def oauth_key_def)

lemma program_key_not_reserved:
  "program_key key \<Longrightarrow> key \<noteq> ''lastUpdated'' \<and> key \<noteq> ''__proto__''"
  by (auto simp: program_key_def)

lemma disk_outcome_simps:
  "disk_outcome True = Written" "disk_outcome False = Refused" "disk_outcome ok \<noteq> Torn"
  by (simp_all add: disk_outcome_def)

lemma writeCache_failed: "writeCache Refused f key v ts = f"
  by (simp add: writeCache_def writeCache_try_def)

lemma writeCache_torn: "writeCache Torn f key v ts = Corrupt"
  by (simp add: writeCache_def writeCache_try_def)

lemma getFromCache_writeCache_same:
  "key \<noteq> ''lastUpdated'' \<Longrightarrow> key \<noteq> ''__proto__'' \<Longrightarrow>
   getFromCache (writeCache Written f key v ts) key = Some v"
  by (simp add: getFromCache_def writeCache_def writeCache_try_def assign_def)

lemma getFromCache_writeCache_stamp:
  "getFromCache (writeCache Written f key v ts) ''lastUpdated'' = Some (Stamp ts)"
  by (simp add: getFromCache_def writeCache_def writeCache_try_def)

lemma getFromCache_writeCache_other:
  "key' \<noteq> key \<Longrightarrow> key' \<noteq> ''lastUpdated'' \<Longrightarrow> outcome \<noteq> Torn \<Longrightarrow>
   getFromCache (writeCache outcome f key v ts) key' = getFromCache f key'"
  by (cases outcome)
    (simp_all add: getFromCache_def writeCache_def writeCache_try_def assign_def Let_def)

text \<open>
  The key \<^verbatim>\<open>lastUpdated\<close>, which the program never passes, is the one key a successful
  write does not set to the value: the stamp is assigned after it.
\<close>

lemma writeCache_reserved_key:
  "getFromCache (writeCache Written f ''lastUpdated'' v ts) ''lastUpdated'' = Some (Stamp ts)"
  by (simp add: getFromCache_def writeCache_def writeCache_try_def)

lemma writeCache_swallows:
  "writeCache_try outcome f key v ts = Inl (err, f') \<Longrightarrow> writeCache outcome f key v ts = f'"
  by (simp add: writeCache_def)

section \<open>Lemmas on the routes\<close>

lemma present_Some: "present x = Some y \<longleftrightarrow> x = Some y \<and> y \<noteq> []"
  by (cases x) auto

text \<open>Which routes write to the Durable Store.\<close>

lemma getUser_db: "db (fst (api_user e s tid)) = db s"
  by (auto simp: api_user_def split: option.splits)

lemma auth_github_db: "db (fst (auth_github cfg e s q)) = db s"
  by (auto simp: auth_github_def split: option.splits)

lemma newrepo_state: "fst (newrepo e s tid args) = s"
  by (auto simp: newrepo_def Let_def split: option.splits list.splits sum.splits)

text \<open>The terms agreement, by what the snapshot holds for the chat.\<close>

lemma agree_snapshot_hit:
  "getFromCache (snapshot s) (user_key tid) = Some v \<Longrightarrow>
   api_user_agree e s tid = (s, Status_500 ''user.save is not a function'')"
  by (simp add: api_user_agree_def)

lemma agree_snapshot_miss:
  assumes "getFromCache (snapshot s) (user_key tid) = None" and "tid \<noteq> []"
  shows "snd (api_user_agree e s tid) = Json_agreed \<and>
         (\<exists>u. db (fst (api_user_agree e s tid)) tid = Some u \<and> isAgreed u)"
  using assms by (auto simp: api_user_agree_def new_User_def Let_def split: option.splits)

text \<open>What getUser answers when the snapshot holds the chat's entry.\<close>

lemma getUser_snapshot_hit:
  "getFromCache (snapshot s) (user_key tid) = Some v \<Longrightarrow> api_user e s tid = (s, Json_value v)"
  by (simp add: api_user_def)

text \<open>The three ways a repository listing of a linked chat can go.\<close>

lemma repos_hit:
  assumes "db s tid = Some u" and "present (githubAccessToken u) = Some tok"
    and "fresh_data (getFromCache (snapshot s) (repos_key tid)) (now e) = Some data"
  shows "api_github_repos e s tid = (s, Json_repos data, [])"
  using assms by (simp add: api_github_repos_def repos_check_def)


lemma repos_miss_fetched:
  assumes "db s tid = Some u" and "present (githubAccessToken u) = Some tok"
    and "fresh_data (getFromCache (snapshot s) (repos_key tid)) (now e) = None"
    and "repos_response e = Inr repos"
    and "api_github_repos e s tid = (s', r, calls)"
  shows "r = Json_repos repos" and "calls = [Get_repos tok]"
    and "db s' tid = Some (u\<lparr>repositories := map to_repo_ref repos\<rparr>)"
    and "disk_ok e 0 \<Longrightarrow>
         getFromCache (snapshot s') (repos_key tid) = Some (ReposEntry repos (resumed e))"
    and "\<not> disk_ok e 0 \<Longrightarrow>
         getFromCache (snapshot s') (repos_key tid) = getFromCache (snapshot s) (repos_key tid)"
  using assms
  by (auto simp: api_github_repos_def repos_check_def Let_def getFromCache_writeCache_other
      getFromCache_writeCache_same keys_distinct writeCache_failed disk_outcome_simps)


text \<open>
  The first part of a listing changes nothing, so a second call that starts while the
  first waits for the provider runs its own check on the same stores, with the same
  result but for the clock: when the first sends a request, so does the second.
\<close>

lemma repos_check_overlap:
  assumes "repos_check e1 s tid = Fetch u tok"
    and "fresh_data (getFromCache (snapshot s) (repos_key tid)) (now e2) = None"
  shows "repos_check e2 s tid = Fetch u tok"
  using assms by (auto simp: repos_check_def split: option.splits)

text \<open>
  A callback that answers with the success redirect has stored the linked record in the
  Durable Store, whether or not the snapshot file could be written.
\<close>

lemma callback_success_db:
  assumes "auth_github_callback e s query_code query_state
             = (s1, Redirect (''/success?telegramId='' @ tid), calls)"
  shows "\<exists>u. db s1 tid = Some u \<and> isConnected u \<and>
             (\<exists>t. githubAccessToken u = Some t \<and> t \<noteq> [])"
  using assms
  by (auto simp: auth_github_callback_def findOneAndUpdate_def Let_def present_Some
      split: option.splits sum.splits if_splits)

text \<open>Every route keeps the invariant of the Durable Store.\<close>

lemma agree_invariant: "db_invariant s \<Longrightarrow> db_invariant (fst (api_user_agree e s tid))"
  by (auto simp: db_invariant_def api_user_agree_def linked_iff_token_def new_User_def Let_def
      split: option.splits if_splits)

lemma callback_invariant:
  "db_invariant s \<Longrightarrow> db_invariant (fst (auth_github_callback e s c q))"
  by (auto simp: db_invariant_def auth_github_callback_def linked_iff_token_def findOneAndUpdate_def
      Let_def present_Some split: option.splits sum.splits if_splits)

lemma repos_invariant:
  "db_invariant s \<Longrightarrow> db_invariant (fst (api_github_repos e s tid))"
  by (auto simp: db_invariant_def api_github_repos_def repos_check_def linked_iff_token_def
      Let_def split: option.splits sum.splits if_splits)

lemma db_invariant_same_db: "db s' = db s \<Longrightarrow> db_invariant s' = db_invariant s"
  by (simp add: db_invariant_def)

lemma step_invariant: "db_invariant s \<Longrightarrow> db_invariant (step cfg e r s)"
proof (cases r)
  case (Agree tid)
  assume "db_invariant s"
  then show ?thesis using Agree by (simp add: agree_invariant)
next
  case (GetUser tid)
  assume "db_invariant s"
  then show ?thesis using GetUser
    by (simp add: db_invariant_same_db [of "fst (api_user e s tid)" s] getUser_db)
next
  case (BeginAuthorization q)
  assume "db_invariant s"
  then show ?thesis using BeginAuthorization
    by (simp add: db_invariant_same_db [of "fst (auth_github cfg e s q)" s] auth_github_db)
next
  case (CompleteAuthorization c q)
  assume "db_invariant s"
  then show ?thesis using CompleteAuthorization by (simp add: callback_invariant)
next
  case (ListRepositories tid)
  assume "db_invariant s"
  then show ?thesis using ListRepositories by (simp add: repos_invariant)
next
  case (CreateRepository tid args)
  assume "db_invariant s"
  then show ?thesis using CreateRepository by (simp add: newrepo_state)
qed

lemma reachable_invariant: "reachable cfg s \<Longrightarrow> db_invariant s"
proof (induction rule: reachable.induct)
  case (start s)
  then show ?case by (simp add: db_invariant_def)
next
  case (request s e r)
  then show ?case by (simp add: step_invariant)
qed

section \<open>Lemmas on the concrete inputs\<close>

lemma calm_fields:
  "now (calm t) = t" "disk_ok (calm t) n"
  "token_response (calm t) = Inr (Some ''gho_16C7e42F'')"
  "profile_response (calm t) = Inr octocat"
  "repos_response (calm t) = Inr [hello_world]"
  "create_response (calm t) = Inr foo_repo"
  "resumed (calm t) = t"
  by (simp_all add: calm_def)

lemma slow_fetch_fields:
  "now (slow_fetch t) = t" "disk_ok (slow_fetch t) n"
  "repos_response (slow_fetch t) = Inr [hello_world]"
  "resumed (slow_fetch t) = t + 400"
  by (simp_all add: slow_fetch_def calm_def)

lemma disk_failing_fields:
  "now (disk_failing t) = t" "\<not> disk_ok (disk_failing t) n"
  "token_response (disk_failing t) = Inr (Some ''gho_16C7e42F'')"
  "profile_response (disk_failing t) = Inr octocat"
  "repos_response (disk_failing t) = Inr [hello_world]"
  by (simp_all add: disk_failing_def calm_def)


lemma user_42_fields:
  "isConnected user_42" "\<not> isAgreed user_42"
  "githubAccessToken user_42 = Some ''gho_16C7e42F''"
  "present (githubAccessToken user_42) = Some ''gho_16C7e42F''"
  by (simp_all add: user_42_def findOneAndUpdate_def)

text \<open>The terms agreement of chat 42 on the fresh deployment, and what the stores then hold.\<close>

lemma agreed_42_holds:
  "db agreed_42 ''42'' = Some (new_User ''42'' 1000)"
  "getFromCache (snapshot agreed_42) (user_key ''42'') = Some (UserDoc (new_User ''42'' 1000))"
  by (simp_all add: agreed_42_def api_user_agree_def fresh_deploy_def getFromCache_unreadable
      calm_fields getFromCache_writeCache_same keys_distinct disk_outcome_simps Let_def)

text \<open>The authorization of chat 42 on the fresh deployment, and what the stores then hold.\<close>

lemma callback_fresh:
  "auth_github_callback (calm 1000) fresh_deploy (Some ''c0de'') (Some ''42'')
     = (linked_42, Redirect ''/success?telegramId=42'',
        [Token_exchange ''c0de'', Get_profile ''gho_16C7e42F'', Send_message ''42''])"
  by (simp add: linked_42_def auth_github_callback_def calm_fields Let_def)

lemma linked_42_holds:
  "db linked_42 ''42'' = Some user_42"
  "db linked_42 ''43'' = None"
  "getFromCache (snapshot linked_42) (user_key ''42'') = Some (UserDoc user_42)"
  "getFromCache (snapshot linked_42) (repos_key ''42'') = None"
  by (simp_all add: linked_42_def user_42_def auth_github_callback_def fresh_deploy_def
      calm_fields getFromCache_writeCache_same getFromCache_writeCache_other
      getFromCache_unreadable keys_distinct disk_outcome_simps Let_def)

lemma linked_42_reachable: "reachable example_config linked_42"
  unfolding linked_42_def
  using reachable.request [OF reachable.start, of fresh_deploy example_config "calm 1000"
      "CompleteAuthorization (Some ''c0de'') (Some ''42'')"]
  by (simp add: fresh_deploy_def)

text \<open>The first listing of chat 42, and what the stores then hold.\<close>

lemma list_linked_42:
  "api_github_repos (calm 2000) linked_42 ''42''
     = (listed_42, Json_repos [hello_world], [Get_repos ''gho_16C7e42F''])"
  by (simp add: listed_42_def api_github_repos_def repos_check_def linked_42_holds
      user_42_fields calm_fields Let_def)

lemma listed_42_holds:
  "db listed_42 ''42'' = Some (user_42\<lparr>repositories := map to_repo_ref [hello_world]\<rparr>)"
  "getFromCache (snapshot listed_42) (repos_key ''42'') = Some (ReposEntry [hello_world] 2000)"
  using repos_miss_fetched(3,4) [OF linked_42_holds(1) user_42_fields(4) _ calm_fields(5) list_linked_42]
  by (simp_all add: linked_42_holds calm_fields)

text \<open>The same listing with a provider that takes 400 milliseconds: the stamp is 2400.\<close>

lemma list_linked_slowly_42:
  "api_github_repos (slow_fetch 2000) linked_42 ''42''
     = (listed_slowly_42, Json_repos [hello_world], [Get_repos ''gho_16C7e42F''])"
  by (simp add: listed_slowly_42_def api_github_repos_def repos_check_def linked_42_holds
      user_42_fields slow_fetch_fields Let_def)

lemma listed_slowly_42_holds:
  "db listed_slowly_42 ''42'' = Some (user_42\<lparr>repositories := map to_repo_ref [hello_world]\<rparr>)"
  "getFromCache (snapshot listed_slowly_42) (repos_key ''42'') = Some (ReposEntry [hello_world] 2400)"
  using repos_miss_fetched(3,4)
    [OF linked_42_holds(1) user_42_fields(4) _ slow_fetch_fields(3) list_linked_slowly_42]
  by (simp_all add: linked_42_holds slow_fetch_fields)

text \<open>A listing whose file writes fail caches nothing: the next one fetches again.\<close>

lemma repos_refetch_when_write_fails:
  "snd (snd (api_github_repos (disk_failing 2000) linked_42 ''42'')) = [Get_repos ''gho_16C7e42F''] \<and>
   snd (snd (api_github_repos (calm 3000)
               (fst (api_github_repos (disk_failing 2000) linked_42 ''42'')) ''42''))
     = [Get_repos ''gho_16C7e42F'']"
  by (simp add: api_github_repos_def repos_check_def linked_42_holds user_42_fields
      disk_failing_fields calm_fields writeCache_failed disk_outcome_simps Let_def)

text \<open>
  Two listings that overlap: the second starts at 2001, while the first, started at 2000,
  waits for the provider. Each finds nothing fresh and sends its own request.
\<close>

lemma overlapping_listings_both_fetch:
  "repos_check (calm 2000) linked_42 ''42'' = Fetch user_42 ''gho_16C7e42F'' \<and>
   repos_check (calm 2001) linked_42 ''42'' = Fetch user_42 ''gho_16C7e42F''"
  by (simp add: repos_check_def linked_42_holds user_42_fields)

text \<open>
  The window runs from the stamp, not from the call. After the listing of time 2000 that
  the provider answered 400 milliseconds later, a listing at 302000, five minutes after the
  first was made, is still served from the snapshot.
\<close>

lemma listing_served_five_minutes_after_call:
  "api_github_repos (calm 302000) listed_slowly_42 ''42''
     = (listed_slowly_42, Json_repos [hello_world], [])"
  by (simp add: api_github_repos_def repos_check_def listed_slowly_42_holds user_42_fields
      calm_fields)

text \<open>
  On a clock that does not run backwards, a call made less than five minutes after an
  earlier call was made makes its freshness test less than five minutes after the earlier
  call's stamp.
\<close>

lemma window_from_call:
  "now e1 \<le> resumed e1 \<Longrightarrow> now e2 - now e1 < 5 * 60 * 1000 \<Longrightarrow>
   now e2 - resumed e1 < 5 * 60 * 1000"
  by simp

section \<open>The claims\<close>

subsection \<open>C1: a completed authorization is visible to getUser\<close>

text \<open>
  C1 as stated: whenever \<^verbatim>\<open>completeAuthorization(code, X)\<close> succeeds, a later
  \<^verbatim>\<open>getUser(X)\<close> returns a linked record, obtainable from the snapshot entry
  \<^verbatim>\<open>user_X\<close> and from the Durable Store. The callback writes the snapshot through
  \<^verbatim>\<open>writeCache\<close>, which swallows a failing file write. Here chat 42 agrees to the terms
  on a fresh deployment at time 1000, which stores \<^verbatim>\<open>user_42\<close> in the snapshot
  (\<open>agreed_42\<close>), then completes the authorization at time 2000 while the file writes
  fail: the callback redirects to the success page, and \<^verbatim>\<open>getUser\<close> at time 3000
  returns the record of time 1000 from the snapshot, which is not linked.
\<close>

theorem getUser_stale_counterexample:
  "fst (snd (auth_github_callback (disk_failing 2000) agreed_42 (Some ''c0de'') (Some ''42'')))
     = Redirect ''/success?telegramId=42'' \<and>
   snd (api_user (calm 3000)
        (fst (auth_github_callback (disk_failing 2000) agreed_42 (Some ''c0de'') (Some ''42'')))
        ''42'')
     = Json_value (UserDoc (new_User ''42'' 1000)) \<and>
   \<not> isConnected (new_User ''42'' 1000)"
  by (simp add: auth_github_callback_def api_user_def agreed_42_holds disk_failing_fields
      writeCache_failed disk_outcome_simps new_User_def Let_def)

text \<open>
  C1, amended: for every chat identity, if the callback answers with the success redirect
  (the provider returned a token and a profile) and its write of the snapshot file
  succeeds, then the Durable Store holds a record for the chat that is connected and has a
  non-empty token, the snapshot entry \<^verbatim>\<open>user_X\<close> holds the same record, and a
  following \<^verbatim>\<open>getUser(X)\<close>, in any environment, returns it.
\<close>

theorem completeAuthorization_then_getUser:
  assumes "auth_github_callback e s query_code query_state
             = (s1, Redirect (''/success?telegramId='' @ tid), calls)"
    and "disk_ok e 0"
  shows "\<exists>u. db s1 tid = Some u \<and> isConnected u \<and>
             (\<exists>t. githubAccessToken u = Some t \<and> t \<noteq> []) \<and>
             getFromCache (snapshot s1) (user_key tid) = Some (UserDoc u) \<and>
             api_user e' s1 tid = (s1, Json_value (UserDoc u))"
  using assms
  by (auto simp: auth_github_callback_def findOneAndUpdate_def Let_def present_Some api_user_def
      getFromCache_writeCache_same keys_distinct disk_outcome_simps
      split: option.splits sum.splits if_splits)

text \<open>The amended C1 for chat 42 on a fresh deployment, with \<^verbatim>\<open>getUser\<close> at time 2000.\<close>

theorem completeAuthorization_then_getUser_witness:
  "\<exists>u. db linked_42 ''42'' = Some u \<and> isConnected u \<and>
       (\<exists>t. githubAccessToken u = Some t \<and> t \<noteq> []) \<and>
       getFromCache (snapshot linked_42) (user_key ''42'') = Some (UserDoc u) \<and>
       api_user (calm 2000) linked_42 ''42'' = (linked_42, Json_value (UserDoc u))"
proof -
  have run: "auth_github_callback (calm 1000) fresh_deploy (Some ''c0de'') (Some ''42'')
      = (linked_42, Redirect (''/success?telegramId='' @ ''42''),
         [Token_exchange ''c0de'', Get_profile ''gho_16C7e42F'', Send_message ''42''])"
    by (simp add: callback_fresh)
  show ?thesis
    using completeAuthorization_then_getUser [OF run calm_fields(2), of "calm 2000"] .
qed

subsection \<open>C2: connected exactly when a token is stored\<close>

text \<open>
  C2: in every state that the requests (terms agreement, beginAuthorization,
  completeAuthorization, listRepositories, createRepository, getUser) can reach from an
  empty Durable Store, in any order and in any environments, every user record is connected
  if and only if its token is present and non-empty.
\<close>

theorem linked_iff_token_reachable:
  assumes "reachable cfg s" and "db s tid = Some u"
  shows "isConnected u \<longleftrightarrow> (\<exists>t. githubAccessToken u = Some t \<and> t \<noteq> [])"
proof -
  from assms have "linked_iff_token u"
    using reachable_invariant [of cfg s] by (simp add: db_invariant_def)
  then show ?thesis
    by (cases "githubAccessToken u") (auto simp: linked_iff_token_def)
qed

text \<open>
  C2 at the record of chat 42 after its authorization on a fresh deployment: it is
  connected and holds the provider's token.
\<close>

theorem linked_iff_token_reachable_witness:
  "reachable example_config linked_42 \<and> db linked_42 ''42'' = Some user_42 \<and>
   isConnected user_42 \<and> (\<exists>t. githubAccessToken user_42 = Some t \<and> t \<noteq> [])"
  using linked_iff_token_reachable [OF linked_42_reachable linked_42_holds(1)]
    linked_42_reachable linked_42_holds(1) user_42_fields(1)
  by simp

subsection \<open>C3: the terms agreement as an upsert\<close>

text \<open>
  C3 says that the terms agreement updates an existing record in place and succeeds
  whether or not the snapshot holds \<^verbatim>\<open>user_X\<close>. The code fails when it does: chat 42,
  linked on a fresh deployment at time 1000 (the callback stores the record, not yet
  agreed, in both stores), agrees at time 2000; the handler takes the plain object from
  the snapshot, \<^verbatim>\<open>user.save()\<close> throws, the answer is status 500, and the record in
  the Durable Store is still not agreed.
\<close>

theorem agree_fails_after_callback:
  "api_user_agree (calm 2000) linked_42 ''42''
     = (linked_42, Status_500 ''user.save is not a function'') \<and>
   map_option isAgreed (db linked_42 ''42'') = Some False \<and>
   map_option isAgreed (db (fst (api_user_agree (calm 2000) linked_42 ''42'')) ''42'') = Some False"
  using agree_snapshot_hit [OF linked_42_holds(3), of "calm 2000"]
  by (simp add: linked_42_holds(1) user_42_fields(2))

subsection \<open>C4: the freshness window of the repository list\<close>




subsection \<open>C5: creating a repository leaves the cached list alone\<close>

text \<open>
  C5: \<^verbatim>\<open>createRepository\<close> does not touch the Snapshot Store. For every linked chat
  identity whose \<^verbatim>\<open>repos_X\<close> entry is still fresh and does not list the new name, a
  successful creation leaves both stores, and so the entry, as they were, and a following
  \<^verbatim>\<open>listRepositories\<close> inside the freshness window returns the cached list, without the
  new repository and without an external call.
\<close>

theorem createRepository_leaves_cache_stale:
  assumes "db s tid = Some u" and "present (githubAccessToken u) = Some tok"
    and "getFromCache (snapshot s) (repos_key tid) = Some (ReposEntry data cachedAt)"
    and "now e' - cachedAt < 5 * 60 * 1000"
    and "newrepo e s tid (name # rest) = (s', Repository_created repo, calls)"
    and "name \<notin> gh_name ` set data"
  shows "s' = s \<and>
         getFromCache (snapshot s') (repos_key tid) = Some (ReposEntry data cachedAt) \<and>
         (\<exists>listed. api_github_repos e' s' tid = (s', Json_repos listed, []) \<and>
                   name \<notin> gh_name ` set listed)"
proof -
  have same: "s' = s"
    using newrepo_state [of e s tid "name # rest"] assms(5) by simp
  have "api_github_repos e' s tid = (s, Json_repos data, [])"
    using assms(1-4) by (simp add: repos_hit)
  then show ?thesis
    using same assms(3,6) by simp
qed

text \<open>
  C5 for chat 42, whose list was fetched at time 2000: it creates \<^verbatim>\<open>foo\<close> at time 2500
  and lists at time 3000; the answer is the list of time 2000, which has no \<^verbatim>\<open>foo\<close>.
\<close>

theorem createRepository_leaves_cache_stale_witness:
  "newrepo (calm 2500) listed_42 ''42'' [''foo'']
     = (listed_42, Repository_created foo_repo, [Post_repo ''gho_16C7e42F'' ''foo'' [] False]) \<and>
   getFromCache (snapshot listed_42) (repos_key ''42'') = Some (ReposEntry [hello_world] 2000) \<and>
   (\<exists>listed. api_github_repos (calm 3000) listed_42 ''42'' = (listed_42, Json_repos listed, []) \<and>
             ''foo'' \<notin> gh_name ` set listed)"
proof -
  let ?u = "user_42\<lparr>repositories := map to_repo_ref [hello_world]\<rparr>"
  have linked: "db listed_42 ''42'' = Some ?u" "present (githubAccessToken ?u) = Some ''gho_16C7e42F''"
    by (simp_all add: listed_42_holds user_42_fields)
  note entry = listed_42_holds(2)
  have window: "now (calm 3000) - 2000 < 5 * 60 * 1000"
    by (simp add: calm_fields)
  have created: "newrepo (calm 2500) listed_42 ''42'' (''foo'' # [])
      = (listed_42, Repository_created foo_repo, [Post_repo ''gho_16C7e42F'' ''foo'' [] False])"
    by (simp add: newrepo_def listed_42_holds user_42_fields calm_fields)
  have new: "''foo'' \<notin> gh_name ` set [hello_world]"
    by (simp add: hello_world_def)
  show ?thesis
    using createRepository_leaves_cache_stale [OF linked entry window created new] created entry
    by simp
qed

subsection \<open>C6: listing without a linkage\<close>

text \<open>
  C6: for every chat identity with no user record, or with a record whose token is missing
  or empty, \<^verbatim>\<open>listRepositories\<close> answers 401 (Unauthenticated), issues no external
  call and leaves the Durable Store and the Snapshot Store as they were.
\<close>

theorem repos_unauthenticated:
  assumes "db s tid = None \<or> (\<exists>u. db s tid = Some u \<and> present (githubAccessToken u) = None)"
  shows "api_github_repos e s tid = (s, Status_401, [])"
  using assms by (auto simp: api_github_repos_def repos_check_def)

text \<open>
  C6 on a fresh deployment, where chat 42 has no record, and after chat 42 has agreed to
  the terms at time 1000, where its record has no token.
\<close>

theorem repos_unauthenticated_witness:
  "api_github_repos (calm 2000) fresh_deploy ''42'' = (fresh_deploy, Status_401, []) \<and>
   api_github_repos (calm 2000) agreed_42 ''42'' = (agreed_42, Status_401, [])"
proof -
  have none: "db fresh_deploy ''42'' = None"
    by (simp add: fresh_deploy_def)
  have unlinked: "\<exists>u. db agreed_42 ''42'' = Some u \<and> present (githubAccessToken u) = None"
    by (simp add: agreed_42_holds(1) new_User_def)
  show ?thesis
    using repos_unauthenticated [OF disjI1, OF none, of "calm 2000"]
      repos_unauthenticated [OF disjI2, OF unlinked, of "calm 2000"]
    by simp
qed

subsection \<open>C7: the callback without its parameters\<close>

text \<open>
  C7: for every chat identity, a callback whose code (or whose chat identity) is absent or
  empty is answered with the redirect ``Missing parameters'' before any external request
  is made, and neither the Durable Store nor the Snapshot Store changes.
\<close>

theorem callback_missing_parameter:
  assumes "present query_code = None \<or> present query_state = None"
  shows "auth_github_callback e s query_code query_state
           = (s, Redirect ''/error?error=Missing parameters'', [])"
  using assms by (auto simp: auth_github_callback_def split: option.splits)

text \<open>C7 for chat 42 with an empty code, with no code, and for a code with no chat identity.\<close>

theorem callback_missing_parameter_witness:
  "auth_github_callback (calm 1000) fresh_deploy (Some '''') (Some ''42'')
     = (fresh_deploy, Redirect ''/error?error=Missing parameters'', []) \<and>
   auth_github_callback (calm 1000) fresh_deploy None (Some ''42'')
     = (fresh_deploy, Redirect ''/error?error=Missing parameters'', []) \<and>
   auth_github_callback (calm 1000) fresh_deploy (Some ''c0de'') None
     = (fresh_deploy, Redirect ''/error?error=Missing parameters'', [])"
  using callback_missing_parameter [of "Some ''''" "Some ''42''" "calm 1000" fresh_deploy]
        callback_missing_parameter [of None "Some ''42''" "calm 1000" fresh_deploy]
        callback_missing_parameter [of "Some ''c0de''" None "calm 1000" fresh_deploy]
  by simp

subsection \<open>C8: an unreadable snapshot file\<close>

text \<open>
  C8: when the snapshot file is absent or cannot be parsed, \<^verbatim>\<open>readCache\<close> gives the
  empty object instead of throwing, so every lookup of a \<^verbatim>\<open>user_\<close> or \<^verbatim>\<open>repos_\<close>
  key is a miss; and \<^verbatim>\<open>getUser(X)\<close> answers with the record the Durable Store holds for
  \<open>X\<close> (with the empty object when it holds none), whether or not the file can be
  written, and leaves the Durable Store as it was.
\<close>

theorem getUser_survives_unreadable_snapshot:
  assumes "snapshot s = Absent \<or> snapshot s = Corrupt"
  shows "readCache (snapshot s) = Map.empty \<and>
         getFromCache (snapshot s) (user_key x) = None \<and>
         getFromCache (snapshot s) (repos_key x) = None \<and>
         snd (api_user e s tid)
           = (case db s tid of Some u \<Rightarrow> Json_value (UserDoc u) | None \<Rightarrow> Json_empty) \<and>
         db (fst (api_user e s tid)) = db s"
  using assms by (auto simp: api_user_def getFromCache_def split: option.splits)

text \<open>
  C8 for chat 42 after its authorization, with the snapshot file then lost or damaged and
  the disk refusing writes: \<^verbatim>\<open>getUser\<close> returns the linked record.
\<close>

theorem getUser_survives_unreadable_snapshot_witness:
  "snd (api_user (disk_failing 2000) (linked_42\<lparr>snapshot := Corrupt\<rparr>) ''42'')
     = Json_value (UserDoc user_42) \<and>
   snd (api_user (calm 2000) (linked_42\<lparr>snapshot := Absent\<rparr>) ''42'')
     = Json_value (UserDoc user_42) \<and>
   snd (api_user (calm 2000) (linked_42\<lparr>snapshot := Absent\<rparr>) ''43'') = Json_empty \<and>
   getFromCache (snapshot (linked_42\<lparr>snapshot := Corrupt\<rparr>)) (user_key ''42'') = None"
proof -
  note rec = linked_42_holds(1,2)
  show ?thesis
    using getUser_survives_unreadable_snapshot
        [of "linked_42\<lparr>snapshot := Corrupt\<rparr>" "''42''" "disk_failing 2000" "''42''"]
      getUser_survives_unreadable_snapshot
        [of "linked_42\<lparr>snapshot := Absent\<rparr>" "''42''" "calm 2000" "''42''"]
      getUser_survives_unreadable_snapshot
        [of "linked_42\<lparr>snapshot := Absent\<rparr>" "''42''" "calm 2000" "''43''"]
      rec
    by simp
qed

subsection \<open>C9: beginning the authorization twice\<close>

text \<open>
  C9: for every chat identity \<open>X\<close>, two \<^verbatim>\<open>beginAuthorization(X)\<close> calls in a row both
  answer with the redirect to the authorization URL, which ends in \<^verbatim>\<open>state=X\<close>; neither
  call changes the Durable Store, and neither changes a user record kept in the snapshot.
\<close>

theorem beginAuthorization_twice:
  assumes "tid \<noteq> []"
    and "auth_github cfg e1 s (Some tid) = (s1, r1)"
    and "auth_github cfg e2 s1 (Some tid) = (s2, r2)"
  shows "r1 = Redirect (githubAuthUrl cfg tid) \<and> r2 = Redirect (githubAuthUrl cfg tid) \<and>
         (\<exists>pre. githubAuthUrl cfg tid = pre @ ''state='' @ tid) \<and>
         db s1 = db s \<and> db s2 = db s \<and>
         getFromCache (snapshot s1) (user_key x) = getFromCache (snapshot s) (user_key x) \<and>
         getFromCache (snapshot s2) (user_key x) = getFromCache (snapshot s) (user_key x)"
proof -
  have url: "\<exists>pre. githubAuthUrl cfg tid = pre @ ''state='' @ tid"
    unfolding githubAuthUrl_def
    by (rule exI [of _ "''https://github.com/login/oauth/authorize?client_id='' @
          github_client_id cfg @ ''&scope=user repo delete_repo&redirect_uri='' @
          frontend_url cfg @ ''/auth/github/callback&''"]) simp
  from assms(1,2) have 1: "r1 = Redirect (githubAuthUrl cfg tid)" "db s1 = db s"
    "snapshot s1 = writeCache (disk_outcome (disk_ok e1 0)) (snapshot s) (oauth_key tid)
                     (OauthMarker tid (now e1)) (now e1)"
    by (auto simp: auth_github_def)
  from assms(1,3) have 2: "r2 = Redirect (githubAuthUrl cfg tid)" "db s2 = db s1"
    "snapshot s2 = writeCache (disk_outcome (disk_ok e2 0)) (snapshot s1) (oauth_key tid)
                     (OauthMarker tid (now e2)) (now e2)"
    by (auto simp: auth_github_def)
  show ?thesis using url 1 2
    by (simp add: getFromCache_writeCache_other keys_distinct disk_outcome_simps)
qed

text \<open>C9 for chat 42, already linked, at times 2000 and 3000.\<close>

theorem beginAuthorization_twice_witness:
  "snd (auth_github example_config (calm 2000) linked_42 (Some ''42''))
     = Redirect (''https://github.com/login/oauth/authorize?client_id=Iv1.8a61f9b3a7aba766'' @
                 ''&scope=user repo delete_repo'' @
                 ''&redirect_uri=https://bot.example/auth/github/callback&state=42'') \<and>
   snd (auth_github example_config (calm 3000)
          (fst (auth_github example_config (calm 2000) linked_42 (Some ''42''))) (Some ''42''))
     = Redirect (githubAuthUrl example_config ''42'') \<and>
   db (fst (auth_github example_config (calm 3000)
          (fst (auth_github example_config (calm 2000) linked_42 (Some ''42''))) (Some ''42'')))
     = db linked_42 \<and>
   getFromCache (snapshot (fst (auth_github example_config (calm 3000)
          (fst (auth_github example_config (calm 2000) linked_42 (Some ''42''))) (Some ''42''))))
       (user_key ''42'')
     = getFromCache (snapshot linked_42) (user_key ''42'')"
proof -
  have id: "''42'' \<noteq> []" by simp
  have url: "githubAuthUrl example_config ''42''
      = ''https://github.com/login/oauth/authorize?client_id=Iv1.8a61f9b3a7aba766'' @
        ''&scope=user repo delete_repo'' @
        ''&redirect_uri=https://bot.example/auth/github/callback&state=42''"
    by (simp add: githubAuthUrl_def example_config_def)
  let ?s1 = "fst (auth_github example_config (calm 2000) linked_42 (Some ''42''))"
  have run1: "auth_github example_config (calm 2000) linked_42 (Some ''42'')
      = (?s1, snd (auth_github example_config (calm 2000) linked_42 (Some ''42'')))"
    by simp
  have run2: "auth_github example_config (calm 3000) ?s1 (Some ''42'')
      = (fst (auth_github example_config (calm 3000) ?s1 (Some ''42'')),
         snd (auth_github example_config (calm 3000) ?s1 (Some ''42'')))"
    by simp
  show ?thesis
    using beginAuthorization_twice [OF id run1 run2, of "''42''"] url
    by simp
qed

subsection \<open>C10: what a write changes\<close>

text \<open>
  C10: for every snapshot file (absent, unreadable or holding an object), every key the
  program can pass and every value, a \<^verbatim>\<open>writeCache(k, v)\<close> whose file write succeeds sets
  \<open>k\<close> to \<open>v\<close>, sets the top-level \<^verbatim>\<open>lastUpdated\<close> to the time of the write and
  leaves every other key of the file as it was; and a write that fails is swallowed:
  whatever the \<^verbatim>\<open>try\<close> block throws, \<^verbatim>\<open>writeCache\<close> returns to its caller, with
  the file that the failed write has left, which is the file as it was when the write was
  refused and an unreadable file when it broke off.
\<close>

theorem writeCache_sets_key_only:
  assumes "program_key key"
  shows "getFromCache (writeCache Written f key v ts) key = Some v \<and>
         getFromCache (writeCache Written f key v ts) ''lastUpdated'' = Some (Stamp ts) \<and>
         (\<forall>key'. key' \<noteq> key \<and> key' \<noteq> ''lastUpdated'' \<longrightarrow>
            getFromCache (writeCache Written f key v ts) key' = getFromCache f key') \<and>
         (\<forall>outcome err f'. writeCache_try outcome f key v ts = Inl (err, f') \<longrightarrow>
            writeCache outcome f key v ts = f') \<and>
         writeCache Refused f key v ts = f \<and>
         writeCache Torn f key v ts = Corrupt"
  using program_key_not_reserved [OF assms]
  by (simp add: getFromCache_writeCache_same getFromCache_writeCache_stamp
      getFromCache_writeCache_other writeCache_swallows writeCache_failed writeCache_torn)

text \<open>
  C10 at a file that holds the repository list of chat 7: a successful write of
  \<^verbatim>\<open>user_7\<close> at time 9, a refused one and one that breaks off.
\<close>

theorem writeCache_sets_key_only_witness:
  "program_key ''user_7'' \<and>
   getFromCache (writeCache Written (Parsed [''repos_7'' \<mapsto> ReposEntry [] 3]) ''user_7''
       (UserDoc (new_User ''7'' 5)) 9) ''user_7''
     = Some (UserDoc (new_User ''7'' 5)) \<and>
   getFromCache (writeCache Written (Parsed [''repos_7'' \<mapsto> ReposEntry [] 3]) ''user_7''
       (UserDoc (new_User ''7'' 5)) 9) ''lastUpdated''
     = Some (Stamp 9) \<and>
   getFromCache (writeCache Written (Parsed [''repos_7'' \<mapsto> ReposEntry [] 3]) ''user_7''
       (UserDoc (new_User ''7'' 5)) 9) ''repos_7''
     = Some (ReposEntry [] 3) \<and>
   writeCache_try Refused (Parsed [''repos_7'' \<mapsto> ReposEntry [] 3]) ''user_7''
       (UserDoc (new_User ''7'' 5)) 9
     = Inl (''writeFileSync failed'', Parsed [''repos_7'' \<mapsto> ReposEntry [] 3]) \<and>
   writeCache Refused (Parsed [''repos_7'' \<mapsto> ReposEntry [] 3]) ''user_7''
       (UserDoc (new_User ''7'' 5)) 9
     = Parsed [''repos_7'' \<mapsto> ReposEntry [] 3] \<and>
   writeCache Torn (Parsed [''repos_7'' \<mapsto> ReposEntry [] 3]) ''user_7''
       (UserDoc (new_User ''7'' 5)) 9
     = Corrupt"
proof -
  have key: "program_key ''user_7''"
    by (simp add: program_key_def)
  show ?thesis
    using writeCache_sets_key_only [OF key, of "Parsed [''repos_7'' \<mapsto> ReposEntry [] 3]"
        "UserDoc (new_User ''7'' 5)" 9] key
    by (simp add: getFromCache_def writeCache_try_def)
qed

end
